theory Spec2Isabelle
  imports Main "HOL-Library.Multiset"
begin

section \<open>JavaScript strings and truthiness\<close>

text \<open>
  A JavaScript string is modelled as a \<open>string\<close>, one \<open>char\<close> per code unit (code units
  up to 255). A form field or request property that may be absent is a \<open>string option\<close>,
  \<open>None\<close> standing for \<open>undefined\<close>. \<open>!x\<close> holds for \<open>undefined\<close> and for the empty
  string.
\<close>

definition truthy :: "string option \<Rightarrow> bool" where
  "truthy v = (case v of None \<Rightarrow> False | Some s \<Rightarrow> s \<noteq> [])"

definition code :: "char \<Rightarrow> nat" where
  "code c = of_char c"

text \<open>The character class \<open>[a-zA-Z0-9_]\<close>.\<close>

definition is_word_char :: "char \<Rightarrow> bool" where
  "is_word_char c =
     ((97 \<le> code c \<and> code c \<le> 122) \<or> (65 \<le> code c \<and> code c \<le> 90) \<or>
      (48 \<le> code c \<and> code c \<le> 57) \<or> c = CHR ''_'')"

text \<open>The class \<open>\d\<close>: the ten ASCII digits.\<close>

definition is_digit :: "char \<Rightarrow> bool" where
  "is_digit c = (48 \<le> code c \<and> code c \<le> 57)"

text \<open>The class \<open>[ ]\<close>: the space character only.\<close>

definition is_space :: "char \<Rightarrow> bool" where
  "is_space c = (c = CHR '' '')"

text \<open>
  The class \<open>\s\<close> on code units up to 255: tab, line feed, vertical tab, form feed,
  carriage return, space and the no-break space U+00A0.
\<close>

definition is_whitespace :: "char \<Rightarrow> bool" where
  "is_whitespace c = ((9 \<le> code c \<and> code c \<le> 13) \<or> code c = 32 \<or> code c = 160)"

text \<open>\<open>s.replace(/[^...]/g, '')\<close>: every character outside the class is deleted.\<close>

definition strip_outside :: "(char \<Rightarrow> bool) \<Rightarrow> string \<Rightarrow> string" where
  "strip_outside keep s = filter keep s"

text \<open>
  \<open>s.replace(/C+/g, r)\<close> for a character class \<open>C\<close>: every maximal run of characters
  of the class is replaced by one copy of \<open>r\<close>.
\<close>

function replace_runs :: "(char \<Rightarrow> bool) \<Rightarrow> string \<Rightarrow> string \<Rightarrow> string" where
  "replace_runs P r [] = []"
| "replace_runs P r (c # cs) =
     (if P c then r @ replace_runs P r (dropWhile P cs) else c # replace_runs P r cs)"
  by pat_completeness auto
termination
  by (relation "measure (\<lambda>(P, r, s). length s)")
     (auto simp: length_dropWhile_le less_Suc_eq_le)

text \<open>\<open>parts.filter(Boolean).join(sep)\<close> on an array of possibly absent strings.\<close>

definition filter_Boolean :: "string option list \<Rightarrow> string list" where
  "filter_Boolean parts = map the (filter truthy parts)"

fun join :: "string \<Rightarrow> string list \<Rightarrow> string" where
  "join sep [] = []"
| "join sep [x] = x"
| "join sep (x # y # ys) = x @ sep @ join sep (y # ys)"

section \<open>Folder names\<close>

text \<open>
  \<open>registerUser\<close>, lines 77-78:
  \<^verbatim>\<open>fullName = [f_name, m_name, l_name].filter(Boolean).join('_')\<close>,
  \<^verbatim>\<open>safeName = fullName.replace(/[^a-zA-Z0-9_]/g, '').replace(/[ ]+/g, '_')\<close>.
\<close>

definition register_fullName :: "string option \<Rightarrow> string option \<Rightarrow> string option \<Rightarrow> string" where
  "register_fullName f_name m_name l_name = join ''_'' (filter_Boolean [f_name, m_name, l_name])"

definition register_safeName :: "string \<Rightarrow> string" where
  "register_safeName fullName = replace_runs is_space ''_'' (strip_outside is_word_char fullName)"

text \<open>
  \<open>applyNOC\<close>, lines 309-310:
  \<^verbatim>\<open>fullName = [f_name, m_name, l_name].filter(Boolean).join('_').replace(/\s+/g, '_')\<close>,
  \<^verbatim>\<open>safeName = fullName.replace(/[^a-zA-Z0-9_]/g, '')\<close>.
\<close>

definition noc_fullName :: "string option \<Rightarrow> string option \<Rightarrow> string option \<Rightarrow> string" where
  "noc_fullName f_name m_name l_name =
     replace_runs is_whitespace ''_'' (join ''_'' (filter_Boolean [f_name, m_name, l_name]))"

definition noc_safeName :: "string \<Rightarrow> string" where
  "noc_safeName fullName = strip_outside is_word_char fullName"

section \<open>The qualification-year pattern\<close>

text \<open>
  \<open>mmYYYYRegex.test(s)\<close> for \<^verbatim>\<open>/^(0[1-9]|1[0-2])\/\d{4}$/\<close>: the whole string is two
  month characters, a slash and four digits.
\<close>

fun mmYYYYRegex_test :: "string \<Rightarrow> bool" where
  "mmYYYYRegex_test [m1, m2, sl, y1, y2, y3, y4] =
     (((m1 = CHR ''0'' \<and> 49 \<le> code m2 \<and> code m2 \<le> 57) \<or>
       (m1 = CHR ''1'' \<and> 48 \<le> code m2 \<and> code m2 \<le> 50)) \<and>
      sl = CHR ''/'' \<and> is_digit y1 \<and> is_digit y2 \<and> is_digit y3 \<and> is_digit y4)"
| "mmYYYYRegex_test _ = False"

text \<open>
  The pattern in the specification's words: \<open>MM/YYYY\<close> with a two-digit month from 01 to
  12 and a four-digit year.
\<close>

definition digit_val :: "char \<Rightarrow> nat" where
  "digit_val c = code c - 48"

definition spec_MM_YYYY :: "string \<Rightarrow> bool" where
  "spec_MM_YYYY s =
     (length s = 7 \<and> list_all is_digit (take 2 s) \<and> s ! 2 = CHR ''/'' \<and>
      list_all is_digit (drop 3 s) \<and>
      1 \<le> 10 * digit_val (s ! 0) + digit_val (s ! 1) \<and>
      10 * digit_val (s ! 0) + digit_val (s ! 1) \<le> 12)"

section \<open>Library functions used by the handlers\<close>

text \<open>
  \<open>String.prototype.toLowerCase\<close> on code units up to 255: the ASCII capitals and the
  Latin-1 capitals (all of 192..222 but the multiplication sign 215) move up by 32.
\<close>

definition toLowerCase_char :: "char \<Rightarrow> char" where
  "toLowerCase_char c =
     (if (65 \<le> code c \<and> code c \<le> 90) \<or> (192 \<le> code c \<and> code c \<le> 222 \<and> code c \<noteq> 215)
      then char_of (code c + 32) else c)"

definition toLowerCase :: "string \<Rightarrow> string" where
  "toLowerCase s = map toLowerCase_char s"

text \<open>
  Node's \<open>path.extname\<close> (POSIX variant), a library function outside the repository: one
  pass from the last character to the first. \<open>startDot\<close> is the index of the last dot of the
  last path component, \<open>endPos\<close> (the library's \<open>end\<close>) the end of that component (trailing slashes skipped),
  \<open>preDotState\<close> records whether anything but dots stands before the dot. \<open>-1\<close> stands for
  "not seen yet", as in the library.
\<close>

record ext_state =
  startDot :: int
  startPart :: int
  endPos :: int
  matchedSlash :: bool
  preDotState :: int

text \<open>The loop runs over the reversed path; the character at hand has index \<open>length rest\<close>.\<close>

fun extname_loop :: "string \<Rightarrow> ext_state \<Rightarrow> ext_state" where
  "extname_loop [] st = st"
| "extname_loop (c # rest) st =
     (let i = int (length rest) in
      if c = CHR ''/'' then
        (if \<not> matchedSlash st then st\<lparr>startPart := i + 1\<rparr> else extname_loop rest st)
      else
        (let st1 = (if endPos st = -1 then st\<lparr>endPos := i + 1, matchedSlash := False\<rparr> else st);
             st2 = (if c = CHR ''.'' then
                      (if startDot st1 = -1 then st1\<lparr>startDot := i\<rparr>
                       else if preDotState st1 \<noteq> 1 then st1\<lparr>preDotState := 1\<rparr> else st1)
                    else if startDot st1 \<noteq> -1 then st1\<lparr>preDotState := -1\<rparr>
                    else st1)
         in extname_loop rest st2))"

definition extname :: "string \<Rightarrow> string" where
  "extname path =
     (let st = extname_loop (rev path)
                 \<lparr>startDot = -1, startPart = 0, endPos = -1, matchedSlash = True, preDotState = 0\<rparr>
      in if startDot st = -1 \<or> endPos st = -1 \<or> preDotState st = 0 \<or>
            (preDotState st = 1 \<and> startDot st = endPos st - 1 \<and> startDot st = startPart st + 1)
         then []
         else drop (nat (startDot st)) (take (nat (endPos st)) path))"

text \<open>A number in a template literal: its decimal digits.\<close>

fun string_of_nat :: "nat \<Rightarrow> string" where
  "string_of_nat n =
     (if n < 10 then [char_of (48 + n)] else string_of_nat (n div 10) @ [char_of (48 + n mod 10)])"

declare string_of_nat.simps [simp del]

text \<open>A possibly absent value in a template literal: \<open>undefined\<close> prints as that word.\<close>

definition template :: "string option \<Rightarrow> string" where
  "template v = (case v of None \<Rightarrow> ''undefined'' | Some s \<Rightarrow> s)"

definition apostrophe :: string where
  "apostrophe = [char_of (39::nat)]"

definition dquote :: string where
  "dquote = [char_of (34::nat)]"

section \<open>Data model\<close>

text \<open>The body of a response is a JSON value.\<close>

datatype json =
  JUndefined | JBool bool | JNum nat | JStr string | JArr "json list" | JObj "(string \<times> json) list"

definition jopt :: "string option \<Rightarrow> json" where
  "jopt v = (case v of None \<Rightarrow> JUndefined | Some s \<Rightarrow> JStr s)"

text \<open>\<open>res.cookie(name, value, options)\<close>.\<close>

record cookie =
  cookie_name :: string
  cookie_value :: string
  httpOnly :: bool
  secure :: bool
  sameSite :: string
  maxAge :: nat

record response =
  status :: nat
  body :: json
  cookies :: "cookie list"

definition respond :: "nat \<Rightarrow> json \<Rightarrow> response" where
  "respond st b = \<lparr>status = st, body = b, cookies = []\<rparr>"

text \<open>
  \<open>req.cleanedFormData\<close> is a dictionary from field names to strings. \<open>req.fileBufferMap\<close>
  is a dictionary from field names to files, read in insertion order by
  \<open>Object.entries\<close>, so it is an association list.
\<close>

type_synonym form = "string \<rightharpoonup> string"

record upload_file =
  originalname :: string
  buffer :: string

type_synonym fileBufferMap = "(string \<times> upload_file) list"

text \<open>
  A user document: its identifier, the fields it was created from (with the credential
  stored hashed), and the optional password-reset token hash and expiry (milliseconds).
  An NOC application: the owner reference, the two text fields, the uploaded documents'
  URLs and the creation time.
\<close>

record user =
  uid :: nat
  doc :: form
  resetPasswordToken :: "string option"
  resetPasswordExpire :: "nat option"

record noc =
  noc_id :: nat
  user_id :: nat
  dental_council_name :: string
  postal_address :: string
  uploads :: "(string \<times> string) list"
  createdAt :: nat

record mail =
  mail_to :: "string option"
  subject :: string
  message :: string

text \<open>
  What a request does outside the record store: local folders and files (taken as
  succeeding), uploads, mails.
\<close>

datatype effect =
  Mkdir string
  | WriteFile string string string
  | Uploaded string string string
  | Mailed mail

text \<open>
  The record store and the log of effects. The store is taken as reliable: a lookup or a
  save does not throw. Identifiers are handed out from a counter.
\<close>

record world =
  users :: "user list"
  nocs :: "noc list"
  regcategories :: "string list"
  nationalities :: "string list"
  next_id :: nat
  effects :: "effect list"

text \<open>
  The external collaborators of one request: the clock (one reading per request), the
  random reset token as hex, the digest, the token issuer (with its secret configured), the
  credential hasher, the mail sender (\<open>Some msg\<close>: the send rejects with that message)
  and the object-storage
  upload (\<open>Inl msg\<close>: it rejects with that message; \<open>Inr url\<close>: the durable URL).
\<close>

record env =
  Date_now :: nat
  randomBytes_hex :: string
  sha256_hex :: "string \<Rightarrow> string"
  jwt_sign :: "nat \<Rightarrow> string"
  bcrypt_hash :: "string \<Rightarrow> string"
  bcrypt_compare :: "string \<Rightarrow> string \<Rightarrow> bool"
  sendEmail :: "mail \<Rightarrow> string option"
  uploadBufferToCloudinary :: "string \<Rightarrow> string \<Rightarrow> string \<Rightarrow> string + string"
  production :: bool

definition log_effect :: "effect \<Rightarrow> world \<Rightarrow> world" where
  "log_effect x w = w\<lparr>effects := effects w @ [x]\<rparr>"

section \<open>Record store operations\<close>

text \<open>\<open>Model.findById(id)\<close> on a reference table: found when the id is present and listed.\<close>

definition findById :: "string list \<Rightarrow> string option \<Rightarrow> bool" where
  "findById table i = (case i of None \<Rightarrow> False | Some k \<Rightarrow> k \<in> set table)"

text \<open>\<open>User.findOne({ key: v })\<close>: the first user whose field has that value.\<close>

definition findOne_field :: "world \<Rightarrow> string \<Rightarrow> string option \<Rightarrow> user option" where
  "findOne_field w key v = find (\<lambda>u. doc u key = v) (users w)"

text \<open>
  \<open>user.save()\<close> for a document read from the store: the stored document with that
  identifier is replaced.
\<close>

definition save_user :: "user \<Rightarrow> world \<Rightarrow> world" where
  "save_user u w = w\<lparr>users := map (\<lambda>v. if uid v = uid u then u else v) (users w)\<rparr>"

text \<open>
  Modelled from the spec: the User model (\<open>models/User.js\<close>) is not among the sources. By
  the specification's data model the credential is stored hashed, and a new document has
  no reset token. \<open>new User(data)\<close> followed by \<open>save()\<close>: a fresh identifier, the fields
  of \<open>data\<close> with the password hashed, appended to the store.
\<close>

definition store_password :: "env \<Rightarrow> form \<Rightarrow> form" where
  "store_password e data =
     (case data ''password'' of None \<Rightarrow> data | Some p \<Rightarrow> data(''password'' \<mapsto> bcrypt_hash e p))"

definition new_User :: "env \<Rightarrow> world \<Rightarrow> form \<Rightarrow> user" where
  "new_User e w data =
     \<lparr>uid = next_id w, doc = store_password e data,
      resetPasswordToken = None, resetPasswordExpire = None\<rparr>"

definition insert_user :: "user \<Rightarrow> world \<Rightarrow> world" where
  "insert_user u w = w\<lparr>users := users w @ [u], next_id := Suc (next_id w)\<rparr>"

section \<open>Registration\<close>

definition error_body :: "string \<Rightarrow> json" where
  "error_body msg = JObj [(''error'', JStr msg)]"

definition message_body :: "string \<Rightarrow> json" where
  "message_body msg = JObj [(''message'', JStr msg)]"

text \<open>The \<open>catch\<close> blocks of \<open>registerUser\<close> and \<open>applyNOC\<close>: status 500 with \<open>err.message\<close>.\<close>

definition caught :: "string \<Rightarrow> response" where
  "caught msg = respond 500 (JObj [(''success'', JBool False), (''error'', JStr msg)])"

text \<open>Lines 46-50: the presence check on eleven fields.\<close>

definition required_missing :: "form \<Rightarrow> bool" where
  "required_missing f =
     (\<not> truthy (f ''f_name'') \<or> \<not> truthy (f ''l_name'') \<or> \<not> truthy (f ''father_name'') \<or>
      \<not> truthy (f ''mother_name'') \<or> \<not> truthy (f ''place'') \<or> \<not> truthy (f ''dob'') \<or>
      \<not> truthy (f ''category'') \<or> \<not> truthy (f ''address'') \<or> \<not> truthy (f ''pan_number'') \<or>
      \<not> truthy (f ''aadhaar_number'') \<or> \<not> truthy (f ''regtype''))"

text \<open>Lines 53 and 56: \<open>v && !mmYYYYRegex.test(v)\<close>.\<close>

definition year_malformed :: "string option \<Rightarrow> bool" where
  "year_malformed v = (case v of None \<Rightarrow> False | Some s \<Rightarrow> s \<noteq> [] \<and> \<not> mmYYYYRegex_test s)"

text \<open>
  Reading \<open>password.length\<close> of an absent password throws a \<open>TypeError\<close>, which the
  handler's \<open>catch\<close> turns into status 500 with the engine's message.
\<close>

definition undefined_length_message :: string where
  "undefined_length_message =
     ''Cannot read properties of undefined (reading '' @ apostrophe @ ''length'' @ apostrophe @ '')''"

text \<open>Lines 46-74: the checks in order; \<open>None\<close> when all of them pass.\<close>

definition registerUser_validate :: "world \<Rightarrow> form \<Rightarrow> response option" where
  "registerUser_validate w f =
     (if required_missing f then
        Some (respond 400 (error_body ''Missing required personal information fields.''))
      else if year_malformed (f ''bds_qualification_year'') then
        Some (respond 400 (error_body ''bds_qualification_year must be in MM/YYYY format''))
      else if year_malformed (f ''mds_qualification_year'') then
        Some (respond 400 (error_body ''mds_qualification_year must be in MM/YYYY format''))
      else if \<not> findById (regcategories w) (f ''regcategory_id'') then
        Some (respond 400 (error_body ''Invalid regcategory_id''))
      else if \<not> findById (nationalities w) (f ''nationality_id'') then
        Some (respond 400 (error_body ''Invalid nationality_id''))
      else if findOne_field w ''email'' (f ''email'') \<noteq> None then
        Some (respond 409 (error_body ''Email already exists''))
      else if findOne_field w ''mobile_number'' (f ''mobile_number'') \<noteq> None then
        Some (respond 409 (error_body ''Mobile number already exists''))
      else
        (case f ''password'' of
           None \<Rightarrow> Some (caught undefined_length_message)
         | Some password \<Rightarrow>
             if length password < 8 then
               Some (respond 400 (error_body ''Password must be at least 8 characters long.''))
             else None))"

definition upload_filename :: "env \<Rightarrow> string \<Rightarrow> string" where
  "upload_filename e fieldName = string_of_nat (Date_now e) @ ''-'' @ fieldName @ ''.pdf''"

text \<open>
  Lines 84-103: the loop over the submitted files. A file whose lower-cased extension is
  not \<open>.pdf\<close> ends the request with 400; a rejected upload is caught as 500; otherwise the
  form field takes the returned URL. \<open>Inr\<close> carries the form after the loop.
\<close>

fun registerUser_uploads ::
  "env \<Rightarrow> string \<Rightarrow> fileBufferMap \<Rightarrow> world \<Rightarrow> form \<Rightarrow> world \<times> (response + form)" where
  "registerUser_uploads e safeName [] w f = (w, Inr f)"
| "registerUser_uploads e safeName ((fieldName, fl) # rest) w f =
     (let extension = toLowerCase (extname (originalname fl)) in
      if extension \<noteq> ''.pdf'' then
        (w, Inl (respond 400 (error_body
           (''Only PDF files allowed. '' @ apostrophe @ originalname fl @ apostrophe @
            '' is not a PDF.''))))
      else
        (let filename = upload_filename e fieldName;
             w1 = log_effect (WriteFile safeName filename (buffer fl)) w
         in case uploadBufferToCloudinary e (buffer fl) filename safeName of
              Inl msg \<Rightarrow> (w1, Inl (caught msg))
            | Inr url \<Rightarrow>
                registerUser_uploads e safeName rest
                  (log_effect (Uploaded filename safeName url) w1) (f(fieldName \<mapsto> url))))"

text \<open>Lines 110-117: the welcome mail (the template's layout whitespace left out).\<close>

definition welcome_mail :: "user \<Rightarrow> mail" where
  "welcome_mail u =
     \<lparr>mail_to = doc u ''email'', subject = ''Welcome to Telangana Dental Council'',
      message = ''<h3>Hello '' @ template (doc u ''f_name'') @ '',</h3>'' @
        ''<p>Thank you for registering with the Telangana Dental Council Portal.</p>''\<rparr>"

definition registered_body :: "env \<Rightarrow> user \<Rightarrow> json" where
  "registered_body e u =
     JObj [(''success'', JBool True), (''message'', JStr ''User registered successfully.''),
           (''token'', JStr (jwt_sign e (uid u))),
           (''data'', JObj [(''id'', JNum (uid u)), (''f_name'', jopt (doc u ''f_name'')),
                            (''m_name'', jopt (doc u ''m_name'')), (''l_name'', jopt (doc u ''l_name'')),
                            (''email'', jopt (doc u ''email'')),
                            (''mobile_number'', jopt (doc u ''mobile_number''))])]"

text \<open>
  \<open>registerUser\<close>, lines 24-139. After validation: the folder, the uploads, the save, the
  welcome mail, the response. The mail is awaited inside the \<open>try\<close> block, after the save:
  a send that rejects reaches the \<open>catch\<close>.
\<close>

definition registerUser :: "env \<Rightarrow> world \<Rightarrow> form \<Rightarrow> fileBufferMap \<Rightarrow> world \<times> response" where
  "registerUser e w f files =
     (case registerUser_validate w f of
        Some r \<Rightarrow> (w, r)
      | None \<Rightarrow>
          (let fullName = register_fullName (f ''f_name'') (f ''m_name'') (f ''l_name'');
               safeName = register_safeName fullName
           in case registerUser_uploads e safeName files (log_effect (Mkdir safeName) w) f of
                (w1, Inl r) \<Rightarrow> (w1, r)
              | (w1, Inr f') \<Rightarrow>
                  (let u = new_User e w1 f';
                       w2 = insert_user u w1
                   in case sendEmail e (welcome_mail u) of
                        Some msg \<Rightarrow> (w2, caught msg)
                      | None \<Rightarrow>
                          (log_effect (Mailed (welcome_mail u)) w2,
                           respond 201 (registered_body e u)))))"

section \<open>Login\<close>

text \<open>\<open>String.prototype.trim\<close>.\<close>

definition trim :: "string \<Rightarrow> string" where
  "trim s = rev (dropWhile is_whitespace (rev (dropWhile is_whitespace s)))"

definition login_cookie :: "env \<Rightarrow> string \<Rightarrow> cookie" where
  "login_cookie e token =
     \<lparr>cookie_name = ''token'', cookie_value = token, httpOnly = True, secure = production e,
      sameSite = ''Strict'', maxAge = 7 * 24 * 60 * 60 * 1000\<rparr>"

definition login_fullname :: "user \<Rightarrow> string" where
  "login_fullname u =
     trim (template (doc u ''f_name'') @ '' '' @
           (if truthy (doc u ''m_name'') then template (doc u ''m_name'') else []) @ '' '' @
           template (doc u ''l_name''))"

text \<open>
  \<open>loginUser\<close>, lines 142-174. The handler has no \<open>try\<close> block: \<open>bcrypt.compare\<close> on a
  stored document without a password throws, and the exception leaves the handler
  (\<open>Inl\<close> with its message). Past the presence check the password is a string, so
  \<open>template password\<close> is that string.
\<close>

definition loginUser :: "env \<Rightarrow> world \<Rightarrow> string option \<Rightarrow> string option \<Rightarrow> string + response" where
  "loginUser e w email password =
     (if \<not> truthy email \<or> \<not> truthy password then
        Inr (respond 400 (message_body ''Email and password are required.''))
      else
        (case findOne_field w ''email'' email of
           None \<Rightarrow> Inr (respond 400 (message_body ''Invalid email or password.''))
         | Some u \<Rightarrow>
             (case doc u ''password'' of
                None \<Rightarrow> Inl ''Illegal arguments: string, undefined''
              | Some stored \<Rightarrow>
                  if \<not> bcrypt_compare e (template password) stored then
                    Inr (respond 400 (message_body ''Invalid email or password.''))
                  else
                    Inr \<lparr>status = 200,
                         body = JObj [(''success'', JBool True), (''message'', JStr ''Login successful''),
                                      (''user'', JObj [(''id'', JNum (uid u)),
                                                       (''fullname'', JStr (login_fullname u)),
                                                       (''email'', jopt (doc u ''email''))])],
                         cookies = [login_cookie e (jwt_sign e (uid u))]\<rparr>)))"

section \<open>Password reset\<close>

text \<open>
  \<open>forgotPassword\<close>, lines 196-235. The request carries the email, the protocol and the
  \<open>Host\<close> header. The token hash and the expiry (15 minutes from now, in milliseconds) are
  saved before the mail is sent; when the send rejects, both are cleared and saved again.
\<close>

record forgot_request =
  req_email :: "string option"
  req_protocol :: string
  req_host :: "string option"

definition resetUrl :: "forgot_request \<Rightarrow> string \<Rightarrow> string" where
  "resetUrl req resetToken =
     req_protocol req @ ''://'' @ template (req_host req) @ ''/api/users/reset-password/'' @ resetToken"

definition reset_mail :: "user \<Rightarrow> string \<Rightarrow> mail" where
  "reset_mail u url =
     \<lparr>mail_to = doc u ''email'', subject = ''TSDC Password Reset Request'',
      message = ''<h3>Hello '' @ template (doc u ''f_name'') @ '',</h3>'' @
        ''<p>You requested to reset your password.</p>'' @
        ''<p><a href='' @ dquote @ url @ dquote @ ''>Click here to reset your password</a></p>'' @
        ''<p>This link expires in 15 minutes.</p>''\<rparr>"

definition forgotPassword :: "env \<Rightarrow> world \<Rightarrow> forgot_request \<Rightarrow> world \<times> response" where
  "forgotPassword e w req =
     (case findOne_field w ''email'' (req_email req) of
        None \<Rightarrow> (w, respond 404 (message_body ''User not found.''))
      | Some u \<Rightarrow>
          (let resetToken = randomBytes_hex e;
               u1 = u\<lparr>resetPasswordToken := Some (sha256_hex e resetToken),
                      resetPasswordExpire := Some (Date_now e + 15 * 60 * 1000)\<rparr>;
               w1 = save_user u1 w;
               url = resetUrl req resetToken
           in case sendEmail e (reset_mail u1 url) of
                None \<Rightarrow>
                  (log_effect (Mailed (reset_mail u1 url)) w1,
                   respond 200 (JObj [(''success'', JBool True),
                                      (''message'', JStr ''Reset password email sent.''),
                                      (''resetUrl'', JStr url)]))
              | Some err \<Rightarrow>
                  (let u2 = u1\<lparr>resetPasswordToken := None, resetPasswordExpire := None\<rparr>
                   in (save_user u2 w1,
                       respond 500 (JObj [(''success'', JBool False),
                                          (''message'', JStr ''Failed to send reset email.'')])))))"

text \<open>
  The query of \<open>resetPassword\<close>, lines 241-244: a document whose stored hash equals the
  hash of the presented token and whose expiry is greater than now. An absent hash or
  expiry matches nothing.
\<close>

definition reset_pending :: "env \<Rightarrow> string \<Rightarrow> user \<Rightarrow> bool" where
  "reset_pending e hashedToken u =
     (resetPasswordToken u = Some hashedToken \<and>
      (case resetPasswordExpire u of None \<Rightarrow> False | Some t \<Rightarrow> Date_now e < t))"

definition findOne_reset :: "env \<Rightarrow> world \<Rightarrow> string \<Rightarrow> user option" where
  "findOne_reset e w hashedToken = find (reset_pending e hashedToken) (users w)"

text \<open>
  \<open>resetPassword\<close>, lines 238-262: the path token and the new password of the body, taken
  as a string. The handler checks nothing about the new password; the save stores it
  hashed (see \<open>store_password\<close>).
\<close>

definition resetPassword :: "env \<Rightarrow> world \<Rightarrow> string \<Rightarrow> string \<Rightarrow> world \<times> response" where
  "resetPassword e w token password =
     (let hashedToken = sha256_hex e token in
      case findOne_reset e w hashedToken of
        None \<Rightarrow> (w, respond 400 (message_body ''Invalid or expired token.''))
      | Some u \<Rightarrow>
          (let u1 = u\<lparr>doc := store_password e ((doc u)(''password'' \<mapsto> password)),
                      resetPasswordToken := None, resetPasswordExpire := None\<rparr>
           in (save_user u1 w,
               respond 200 (JObj [(''success'', JBool True), (''token'', JStr (jwt_sign e (uid u))),
                                   (''message'', JStr ''Password updated successfully.'')]))))"

section \<open>NOC applications\<close>

definition requiredFiles :: "string list" where
  "requiredFiles = [''tdc_reg_certificate_upload'', ''aadhaar_upload'']"

text \<open>\<open>savedFiles[fieldName] = url\<close> on an object kept in insertion order.\<close>

fun assign :: "string \<Rightarrow> string \<Rightarrow> (string \<times> string) list \<Rightarrow> (string \<times> string) list" where
  "assign k v [] = [(k, v)]"
| "assign k v ((k', v') # kvs) = (if k = k' then (k, v) # kvs else (k', v') # assign k v kvs)"

text \<open>
  Lines 314-324: the loop over the submitted files. Every file is uploaded under a name
  ending in \<open>.pdf\<close> and mirrored locally; the loop does not look at the file's own name.
\<close>

fun applyNOC_uploads ::
  "env \<Rightarrow> string \<Rightarrow> fileBufferMap \<Rightarrow> world \<Rightarrow> (string \<times> string) list \<Rightarrow>
   world \<times> (response + (string \<times> string) list)" where
  "applyNOC_uploads e safeName [] w savedFiles = (w, Inr savedFiles)"
| "applyNOC_uploads e safeName ((fieldName, fl) # rest) w savedFiles =
     (let filename = upload_filename e fieldName in
      case uploadBufferToCloudinary e (buffer fl) filename safeName of
        Inl msg \<Rightarrow> (w, Inl (caught msg))
      | Inr url \<Rightarrow>
          applyNOC_uploads e safeName rest
            (log_effect (WriteFile safeName filename (buffer fl))
               (log_effect (Mkdir safeName) (log_effect (Uploaded filename safeName url) w)))
            (assign fieldName url savedFiles))"

text \<open>
  Modelled from the spec: the NOC model (\<open>models/NOC.js\<close>) is not among the sources. By the
  specification's data model an application holds the owner reference, the council name,
  the postal address, the document URLs and a creation timestamp, set when it is saved.
  The constructor's argument is \<open>{user_id, dental_council_name, postal_address,
  ...savedFiles}\<close>: an uploaded field of the same name replaces a text field, and a URL in
  place of the owner reference is no identifier, so that save is rejected (its message is
  abridged here).
\<close>

definition spread :: "(string \<times> string) list \<Rightarrow> string \<Rightarrow> string \<Rightarrow> string" where
  "spread savedFiles key v = (case map_of savedFiles key of None \<Rightarrow> v | Some url \<Rightarrow> url)"

definition new_NOC :: "env \<Rightarrow> world \<Rightarrow> nat \<Rightarrow> string \<Rightarrow> string \<Rightarrow> (string \<times> string) list \<Rightarrow> noc" where
  "new_NOC e w userId council address savedFiles =
     \<lparr>noc_id = next_id w, user_id = userId,
      dental_council_name = spread savedFiles ''dental_council_name'' council,
      postal_address = spread savedFiles ''postal_address'' address,
      uploads = filter (\<lambda>(k, v). k \<notin> {''user_id'', ''dental_council_name'', ''postal_address''}) savedFiles,
      createdAt = Date_now e\<rparr>"

definition insert_noc :: "noc \<Rightarrow> world \<Rightarrow> world" where
  "insert_noc a w = w\<lparr>nocs := nocs w @ [a], next_id := Suc (next_id w)\<rparr>"

definition noc_json :: "noc \<Rightarrow> json" where
  "noc_json a =
     JObj ([(''_id'', JNum (noc_id a)), (''user_id'', JNum (user_id a)),
            (''dental_council_name'', JStr (dental_council_name a)),
            (''postal_address'', JStr (postal_address a))] @
           map (\<lambda>(k, v). (k, JStr v)) (uploads a) @ [(''createdAt'', JNum (createdAt a))])"

text \<open>
  \<open>applyNOC\<close>, lines 293-340, for the authenticated user \<open>req.user\<close>: the two required
  files, the two text fields, the folder name, the uploads, the save.
\<close>

definition applyNOC :: "env \<Rightarrow> world \<Rightarrow> user \<Rightarrow> form \<Rightarrow> fileBufferMap \<Rightarrow> world \<times> response" where
  "applyNOC e w usr f files =
     (case find (\<lambda>field. map_of files field = None) requiredFiles of
        Some field \<Rightarrow> (w, respond 400 (error_body (''Missing required file: '' @ field)))
      | None \<Rightarrow>
          if \<not> truthy (f ''dental_council_name'') \<or> \<not> truthy (f ''postal_address'') then
            (w, respond 400 (error_body ''All fields are required''))
          else
            (let fullName = noc_fullName (doc usr ''f_name'') (doc usr ''m_name'') (doc usr ''l_name'');
                 safeName = noc_safeName fullName
             in case applyNOC_uploads e safeName files w [] of
                  (w1, Inl r) \<Rightarrow> (w1, r)
                | (w1, Inr savedFiles) \<Rightarrow>
                    if map_of savedFiles ''user_id'' \<noteq> None then
                      (w1, caught ''NOC validation failed: user_id: Cast to ObjectId failed'')
                    else
                      (let a = new_NOC e w1 (uid usr) (template (f ''dental_council_name''))
                                 (template (f ''postal_address'')) savedFiles
                       in (insert_noc a w1,
                           respond 201 (JObj [(''success'', JBool True),
                                              (''message'', JStr ''NOC submitted successfully''),
                                              (''data'', noc_json a)])))))"

text \<open>
  \<open>getNOC\<close>, lines 344-353: \<open>NOC.find({ user_id }).sort({ createdAt: -1 })\<close>, the documents
  of that owner by descending creation time.
\<close>

definition find_sorted :: "world \<Rightarrow> nat \<Rightarrow> noc list" where
  "find_sorted w userId = rev (sort_key createdAt (filter (\<lambda>a. user_id a = userId) (nocs w)))"

definition getNOC :: "world \<Rightarrow> user \<Rightarrow> response" where
  "getNOC w usr =
     respond 200 (JObj [(''success'', JBool True),
                        (''data'', JArr (map noc_json (find_sorted w (uid usr))))])"

section \<open>Concrete inputs\<close>

text \<open>
  A request environment in which every collaborator answers, one in which the mail sender
  rejects, a complete registration form, and a store with one registration category and
  one nationality.
\<close>

definition example_env :: env where
  "example_env =
     \<lparr>Date_now = 1000, randomBytes_hex = ''ab12'', sha256_hex = (\<lambda>s. ''h:'' @ s),
      jwt_sign = (\<lambda>i. ''jwt'' @ string_of_nat i), bcrypt_hash = (\<lambda>p. ''$'' @ p),
      bcrypt_compare = (\<lambda>p h. h = ''$'' @ p), sendEmail = (\<lambda>m. None),
      uploadBufferToCloudinary = (\<lambda>b n d. Inr (''https://cdn/'' @ d @ ''/'' @ n)),
      production = False\<rparr>"

definition failing_mail_env :: env where
  "failing_mail_env = example_env\<lparr>sendEmail := (\<lambda>m. Some ''SMTP connection refused'')\<rparr>"

definition example_form :: form where
  "example_form =
     map_of [(''f_name'', ''Mary Ann''), (''l_name'', ''Smith''), (''father_name'', ''John''),
       (''mother_name'', ''Jane''), (''place'', ''Hyderabad''), (''dob'', ''2000-01-01''),
       (''category'', ''General''), (''address'', ''Road 1''), (''pan_number'', ''ABCDE1234F''),
       (''aadhaar_number'', ''123412341234''), (''regtype'', ''new''), (''regcategory_id'', ''c1''),
       (''nationality_id'', ''n1''), (''email'', ''mary@example.in''),
       (''mobile_number'', ''9999999999''), (''password'', ''12345678'')]"

definition empty_world :: world where
  "empty_world =
     \<lparr>users = [], nocs = [], regcategories = [''c1''], nationalities = [''n1''], next_id = 1,
      effects = []\<rparr>"

text \<open>A stored user with a pending reset token, and a store that holds that user.\<close>

definition example_user :: user where
  "example_user =
     \<lparr>uid = 7,
      doc = map_of [(''f_name'', ''Mary Ann''), (''l_name'', ''Smith''),
                    (''email'', ''mary@example.in''), (''password'', ''$secret12'')],
      resetPasswordToken = Some ''h:ab12'', resetPasswordExpire = Some 901000\<rparr>"

definition pending_world :: world where
  "pending_world = empty_world\<lparr>users := [example_user]\<rparr>"

text \<open>Three applications, two of them owned by the example user.\<close>

definition noc_early :: noc where
  "noc_early =
     \<lparr>noc_id = 1, user_id = 7, dental_council_name = ''KDC'', postal_address = ''Road 1'',
      uploads = [], createdAt = 10\<rparr>"

definition noc_other :: noc where
  "noc_other =
     \<lparr>noc_id = 2, user_id = 8, dental_council_name = ''MDC'', postal_address = ''Road 2'',
      uploads = [], createdAt = 20\<rparr>"

definition noc_late :: noc where
  "noc_late =
     \<lparr>noc_id = 3, user_id = 7, dental_council_name = ''TDC'', postal_address = ''Road 3'',
      uploads = [], createdAt = 30\<rparr>"

definition noc_world :: world where
  "noc_world = pending_world\<lparr>nocs := [noc_early, noc_other, noc_late]\<rparr>"

text \<open>
  A forgot-password request for the example user, a request environment after the
  example user's token has expired, and an NOC submission whose second file is a PNG image.
\<close>

definition example_request :: forgot_request where
  "example_request =
     \<lparr>req_email = Some ''mary@example.in'', req_protocol = ''https'', req_host = Some ''tdc.example''\<rparr>"

definition late_env :: env where
  "late_env = example_env\<lparr>Date_now := 901000\<rparr>"

definition cert_pdf :: upload_file where
  "cert_pdf = \<lparr>originalname = ''cert.pdf'', buffer = ''%PDF-1.7''\<rparr>"

definition photo_png :: upload_file where
  "photo_png = \<lparr>originalname = ''photo.png'', buffer = ''PNG''\<rparr>"

definition noc_form :: form where
  "noc_form = map_of [(''dental_council_name'', ''KDC''), (''postal_address'', ''Road 1'')]"

definition noc_files :: fileBufferMap where
  "noc_files = [(''tdc_reg_certificate_upload'', cert_pdf), (''aadhaar_upload'', photo_png)]"

section \<open>Named results of the handlers\<close>

text \<open>The user document that \<open>resetPassword\<close> saves, and its two responses.\<close>

definition reset_user :: "env \<Rightarrow> user \<Rightarrow> string \<Rightarrow> user" where
  "reset_user e u password =
     u\<lparr>doc := (doc u)(''password'' \<mapsto> bcrypt_hash e password),
       resetPasswordToken := None, resetPasswordExpire := None\<rparr>"

definition reset_ok :: "env \<Rightarrow> user \<Rightarrow> response" where
  "reset_ok e u =
     respond 200 (JObj [(''success'', JBool True), (''token'', JStr (jwt_sign e (uid u))),
                        (''message'', JStr ''Password updated successfully.'')])"

definition invalid_or_expired :: response where
  "invalid_or_expired = respond 400 (message_body ''Invalid or expired token.'')"

text \<open>
  The user document that \<open>forgotPassword\<close> saves first, the mail it sends, and its
  response when the send rejects.
\<close>

definition forgot_user :: "env \<Rightarrow> user \<Rightarrow> user" where
  "forgot_user e u =
     u\<lparr>resetPasswordToken := Some (sha256_hex e (randomBytes_hex e)),
       resetPasswordExpire := Some (Date_now e + 15 * 60 * 1000)\<rparr>"

definition forgot_mail :: "env \<Rightarrow> forgot_request \<Rightarrow> user \<Rightarrow> mail" where
  "forgot_mail e req u = reset_mail (forgot_user e u) (resetUrl req (randomBytes_hex e))"

definition notification_failure :: response where
  "notification_failure =
     respond 500 (JObj [(''success'', JBool False), (''message'', JStr ''Failed to send reset email.'')])"

text \<open>The response of \<open>registerUser\<close> to a malformed qualification-year field.\<close>

definition year_rejection :: "string \<Rightarrow> response" where
  "year_rejection field = respond 400 (error_body (field @ '' must be in MM/YYYY format''))"

text \<open>The response of \<open>loginUser\<close> to an unknown email and to a wrong password.\<close>

definition invalid_credential :: response where
  "invalid_credential = respond 400 (message_body ''Invalid email or password.'')"

text \<open>A list of applications by descending creation time.\<close>

definition newest_first :: "noc list \<Rightarrow> bool" where
  "newest_first xs = sorted_wrt (\<lambda>a b. createdAt b \<le> createdAt a) xs"

section \<open>Properties of the string functions\<close>

lemmas example_defs = example_env_def failing_mail_env_def example_form_def empty_world_def

lemma chr0: "c = CHR ''0'' \<longleftrightarrow> code c = 48"
proof -
  have "((of_char c :: nat) = of_char (CHR ''0'')) = (c = CHR ''0'')"
    by (rule of_char_eq_iff)
  then show ?thesis by (simp add: code_def)
qed

lemma chr1: "c = CHR ''1'' \<longleftrightarrow> code c = 49"
proof -
  have "((of_char c :: nat) = of_char (CHR ''1'')) = (c = CHR ''1'')"
    by (rule of_char_eq_iff)
  then show ?thesis by (simp add: code_def)
qed

lemma replace_runs_id: "\<forall>c\<in>set s. \<not> P c \<Longrightarrow> replace_runs P r s = s"
  by (induction s) auto

lemma word_char_not_space: "is_word_char c \<Longrightarrow> \<not> is_space c"
  by (auto simp: is_word_char_def is_space_def code_def)

text \<open>
  In \<open>registerUser\<close> the second \<open>replace\<close> never finds a space: the first one has deleted
  them all. The folder name is the name with every character outside the class deleted.
\<close>

lemma register_safeName_strip: "register_safeName s = filter is_word_char s"
  unfolding register_safeName_def strip_outside_def
  by (rule replace_runs_id) (simp add: word_char_not_space)

text \<open>
  C5: for the first name \<open>Mary Ann\<close> and the last name \<open>Smith\<close>, the registration handler's
  folder name loses the space (\<open>MaryAnn_Smith\<close>), where the claim has it as an underscore;
  the NOC handler, which replaces whitespace before it strips, gives \<open>Mary_Ann_Smith\<close>.
\<close>

theorem register_safeName_drops_space:
  "register_safeName (register_fullName (Some ''Mary Ann'') None (Some ''Smith'')) = ''MaryAnn_Smith'' \<and>
   noc_safeName (noc_fullName (Some ''Mary Ann'') None (Some ''Smith'')) = ''Mary_Ann_Smith''"
  by (simp add: register_safeName_strip register_fullName_def noc_safeName_def noc_fullName_def
      strip_outside_def filter_Boolean_def truthy_def is_word_char_def is_whitespace_def code_def)

text \<open>The pattern of the code and the pattern in the specification's words agree.\<close>

lemma mmYYYYRegex_refines: "mmYYYYRegex_test s = spec_MM_YYYY s"
proof (cases s rule: mmYYYYRegex_test.cases)
  case (1 m1 m2 sl y1 y2 y3 y4)
  have "((m1 = CHR ''0'' \<and> 49 \<le> code m2 \<and> code m2 \<le> 57) \<or>
         (m1 = CHR ''1'' \<and> 48 \<le> code m2 \<and> code m2 \<le> 50)) \<longleftrightarrow>
        (is_digit m1 \<and> is_digit m2 \<and> 1 \<le> 10 * digit_val m1 + digit_val m2 \<and>
         10 * digit_val m1 + digit_val m2 \<le> 12)"
    unfolding chr0 chr1 is_digit_def digit_val_def by arith
  with 1 show ?thesis
    by (auto simp: spec_MM_YYYY_def)
qed (simp_all add: spec_MM_YYYY_def)

section \<open>Properties of registration\<close>

text \<open>The upload loop touches the log of effects only, never the record store.\<close>

lemma registerUser_uploads_store:
  "registerUser_uploads e sn files w f = (w', x) \<Longrightarrow>
     users w' = users w \<and> nocs w' = nocs w \<and> next_id w' = next_id w"
proof (induction files arbitrary: w f)
  case Nil
  then show ?case by simp
next
  case (Cons p files)
  obtain k fl where p: "p = (k, fl)" by (cases p)
  from Cons.prems show ?case
    unfolding p
    by (auto simp: Let_def log_effect_def split: if_splits sum.splits dest!: Cons.IH)
qed

text \<open>A response that ends the loop is the 400 of a file that is no PDF, or a caught 500.\<close>

lemma registerUser_uploads_Inl:
  "registerUser_uploads e sn files w f = (w', Inl r) \<Longrightarrow>
     status r = 500 \<or> (\<exists>name. r = respond 400 (error_body (''Only PDF files allowed. '' @ name)))"
proof (induction files arbitrary: w f)
  case Nil
  then show ?case by simp
next
  case (Cons p files)
  obtain k fl where p: "p = (k, fl)" by (cases p)
  from Cons.prems show ?case
    unfolding p
    by (auto simp: Let_def caught_def respond_def split: if_splits sum.splits dest!: Cons.IH)
qed

lemma validate_bds_year:
  "\<not> required_missing f \<Longrightarrow>
   (registerUser_validate w f = Some (year_rejection ''bds_qualification_year'')) =
     year_malformed (f ''bds_qualification_year'')"
  by (simp add: registerUser_validate_def year_rejection_def respond_def error_body_def caught_def
      split: option.splits)

lemma validate_mds_year:
  "\<not> required_missing f \<Longrightarrow> \<not> year_malformed (f ''bds_qualification_year'') \<Longrightarrow>
   (registerUser_validate w f = Some (year_rejection ''mds_qualification_year'')) =
     year_malformed (f ''mds_qualification_year'')"
  by (simp add: registerUser_validate_def year_rejection_def respond_def error_body_def caught_def
      split: option.splits)

lemma register_past_validation:
  "registerUser_validate w f = None \<Longrightarrow>
   snd (registerUser e w f files) \<noteq> year_rejection ''bds_qualification_year'' \<and>
   snd (registerUser e w f files) \<noteq> year_rejection ''mds_qualification_year''"
  by (auto simp: registerUser_def Let_def year_rejection_def respond_def error_body_def caught_def
      split: option.splits prod.splits sum.splits dest!: registerUser_uploads_Inl)

lemma register_validation_response:
  "registerUser_validate w f = Some r \<Longrightarrow> registerUser e w f files = (w, r)"
  by (simp add: registerUser_def)

text \<open>
  C7: in a submission with all required fields, a present \<open>bds_qualification_year\<close> is
  answered with the 400 format rejection exactly when it is not \<open>MM/YYYY\<close> with a month
  from 01 to 12 and a four-digit year; the same holds for \<open>mds_qualification_year\<close> once
  the first field has passed. \<open>13/2020\<close> does not match and \<open>04/2020\<close> does.
\<close>

theorem qualification_year_format:
  assumes "\<not> required_missing f"
  shows "(f ''bds_qualification_year'' = Some y \<and> y \<noteq> [] \<longrightarrow>
           (snd (registerUser e w f files) = year_rejection ''bds_qualification_year'') =
             (\<not> spec_MM_YYYY y)) \<and>
         (f ''mds_qualification_year'' = Some y' \<and> y' \<noteq> [] \<and>
          \<not> year_malformed (f ''bds_qualification_year'') \<longrightarrow>
           (snd (registerUser e w f files) = year_rejection ''mds_qualification_year'') =
             (\<not> spec_MM_YYYY y')) \<and>
         \<not> spec_MM_YYYY ''13/2020'' \<and> spec_MM_YYYY ''04/2020''"
proof -
  have resp: "snd (registerUser e w f files) = r \<longleftrightarrow> registerUser_validate w f = Some r"
    if "r = year_rejection ''bds_qualification_year'' \<or> r = year_rejection ''mds_qualification_year''"
    for r
  proof (cases "registerUser_validate w f")
    case None
    with that register_past_validation [OF None, of e files] show ?thesis by auto
  next
    case (Some r')
    then show ?thesis by (simp add: register_validation_response)
  qed
  have bds: "(snd (registerUser e w f files) = year_rejection ''bds_qualification_year'') =
      year_malformed (f ''bds_qualification_year'')"
    using resp validate_bds_year [OF assms] by simp
  have mds: "(snd (registerUser e w f files) = year_rejection ''mds_qualification_year'') =
      year_malformed (f ''mds_qualification_year'')"
    if "\<not> year_malformed (f ''bds_qualification_year'')"
    using resp validate_mds_year [OF assms that] by simp
  have ex: "\<not> spec_MM_YYYY ''13/2020'' \<and> spec_MM_YYYY ''04/2020''"
    unfolding mmYYYYRegex_refines [symmetric] by (simp add: is_digit_def code_def)
  show ?thesis
    using bds mds ex by (auto simp: year_malformed_def mmYYYYRegex_refines)
qed

lemma example_not_missing:
  "\<not> required_missing (example_form(''bds_qualification_year'' \<mapsto> ''13/2020''))"
  by (simp add: required_missing_def truthy_def example_defs)

lemma example_not_missing_ok:
  "\<not> required_missing (example_form(''bds_qualification_year'' \<mapsto> ''04/2020''))"
  by (simp add: required_missing_def truthy_def example_defs)

theorem qualification_year_format_witness:
  "\<not> required_missing (example_form(''bds_qualification_year'' \<mapsto> ''13/2020'')) \<and>
   snd (registerUser example_env empty_world
          (example_form(''bds_qualification_year'' \<mapsto> ''13/2020'')) []) =
     year_rejection ''bds_qualification_year'' \<and>
   snd (registerUser example_env empty_world
          (example_form(''bds_qualification_year'' \<mapsto> ''04/2020'')) []) \<noteq>
     year_rejection ''bds_qualification_year''"
proof -
  have bad: "snd (registerUser example_env empty_world
          (example_form(''bds_qualification_year'' \<mapsto> ''13/2020'')) []) =
     year_rejection ''bds_qualification_year''"
    using qualification_year_format [OF example_not_missing, of "''13/2020''" example_env
        empty_world "[]"]
    by simp
  have good: "snd (registerUser example_env empty_world
          (example_form(''bds_qualification_year'' \<mapsto> ''04/2020'')) []) \<noteq>
     year_rejection ''bds_qualification_year''"
    using qualification_year_format [OF example_not_missing_ok, of "''04/2020''" example_env
        empty_world "[]"]
    by simp
  from example_not_missing bad good show ?thesis by blast
qed

text \<open>
  C9: the presence check does not read \<open>email\<close>, \<open>mobile_number\<close> or \<open>password\<close>; and a
  submission that passes the presence check, the two format checks, the two reference
  lookups and the two uniqueness lookups but has no password is answered with status 500
  and the \<open>TypeError\<close>'s message, the store unchanged.
\<close>

theorem missing_password_is_500:
  "required_missing (f(''email'' := a, ''mobile_number'' := b, ''password'' := c)) = required_missing f \<and>
   (\<not> required_missing f \<and> \<not> year_malformed (f ''bds_qualification_year'') \<and>
    \<not> year_malformed (f ''mds_qualification_year'') \<and>
    findById (regcategories w) (f ''regcategory_id'') \<and>
    findById (nationalities w) (f ''nationality_id'') \<and>
    findOne_field w ''email'' (f ''email'') = None \<and>
    findOne_field w ''mobile_number'' (f ''mobile_number'') = None \<and>
    f ''password'' = None \<longrightarrow>
    registerUser e w f files = (w, caught undefined_length_message) \<and>
    status (snd (registerUser e w f files)) = 500)"
  by (simp add: required_missing_def registerUser_def registerUser_validate_def caught_def respond_def)

theorem missing_password_is_500_witness:
  "registerUser example_env empty_world (example_form(''password'' := None)) [] =
     (empty_world, caught undefined_length_message) \<and>
   status (snd (registerUser example_env empty_world (example_form(''password'' := None)) [])) = 500"
proof -
  let ?f = "example_form(''password'' := None)"
  have "\<not> required_missing ?f \<and> \<not> year_malformed (?f ''bds_qualification_year'') \<and>
    \<not> year_malformed (?f ''mds_qualification_year'') \<and>
    findById (regcategories empty_world) (?f ''regcategory_id'') \<and>
    findById (nationalities empty_world) (?f ''nationality_id'') \<and>
    findOne_field empty_world ''email'' (?f ''email'') = None \<and>
    findOne_field empty_world ''mobile_number'' (?f ''mobile_number'') = None \<and>
    ?f ''password'' = None"
    by (simp add: required_missing_def truthy_def year_malformed_def
        findById_def findOne_field_def example_defs)
  then show ?thesis
    using missing_password_is_500 [of ?f None None None empty_world example_env "[]"] by blast
qed

lemma example_validates: "registerUser_validate empty_world example_form = None"
  by (simp add: registerUser_validate_def required_missing_def truthy_def year_malformed_def
      findById_def findOne_field_def example_defs)

lemma example_safeName:
  "register_safeName (register_fullName (example_form ''f_name'') (example_form ''m_name'')
     (example_form ''l_name'')) = ''MaryAnn_Smith''"
  by (simp add: register_safeName_strip register_fullName_def filter_Boolean_def truthy_def
      is_word_char_def code_def example_form_def)

text \<open>
  C1, as the code has it: when validation passes, the uploads succeed and the welcome mail's
  send rejects with a message, the user document has been saved and stays saved, and the
  handler answers 500 with that message (no token).
\<close>

theorem welcome_mail_failure_is_500:
  assumes "registerUser_validate w f = None"
    and "registerUser_uploads e
           (register_safeName (register_fullName (f ''f_name'') (f ''m_name'') (f ''l_name''))) files
           (log_effect
              (Mkdir (register_safeName (register_fullName (f ''f_name'') (f ''m_name'') (f ''l_name''))))
              w) f
         = (w1, Inr f')"
    and "sendEmail e (welcome_mail (new_User e w1 f')) = Some msg"
  shows "registerUser e w f files = (insert_user (new_User e w1 f') w1, caught msg) \<and>
         status (snd (registerUser e w f files)) = 500 \<and>
         users (fst (registerUser e w f files)) = users w @ [new_User e w1 f']"
  using assms registerUser_uploads_store [OF assms(2)]
  by (simp add: registerUser_def Let_def insert_user_def caught_def respond_def log_effect_def)

theorem welcome_mail_failure_is_500_witness:
  "registerUser failing_mail_env empty_world example_form [] =
     (insert_user
        (new_User failing_mail_env (log_effect (Mkdir ''MaryAnn_Smith'') empty_world) example_form)
        (log_effect (Mkdir ''MaryAnn_Smith'') empty_world),
      caught ''SMTP connection refused'')"
proof -
  have up: "registerUser_uploads failing_mail_env
           (register_safeName (register_fullName (example_form ''f_name'') (example_form ''m_name'')
              (example_form ''l_name''))) []
           (log_effect
              (Mkdir (register_safeName (register_fullName (example_form ''f_name'')
                 (example_form ''m_name'') (example_form ''l_name'')))) empty_world) example_form
         = (log_effect (Mkdir ''MaryAnn_Smith'') empty_world, Inr example_form)"
    by (simp add: example_safeName)
  have send: "sendEmail failing_mail_env
      (welcome_mail (new_User failing_mail_env (log_effect (Mkdir ''MaryAnn_Smith'') empty_world)
         example_form)) = Some ''SMTP connection refused''"
    by (simp add: failing_mail_env_def)
  show ?thesis
    using welcome_mail_failure_is_500 [OF example_validates up send] by simp
qed

text \<open>
  C1 as stated fails: the example form passes validation, the user is saved, the welcome
  mail's send rejects, and the status is not 201.
\<close>

theorem welcome_mail_failure_not_201:
  "registerUser_validate empty_world example_form = None \<and>
   sendEmail failing_mail_env
     (welcome_mail (new_User failing_mail_env (log_effect (Mkdir ''MaryAnn_Smith'') empty_world)
        example_form)) = Some ''SMTP connection refused'' \<and>
   length (users (fst (registerUser failing_mail_env empty_world example_form []))) = 1 \<and>
   status (snd (registerUser failing_mail_env empty_world example_form [])) \<noteq> 201"
proof -
  have send: "sendEmail failing_mail_env m = Some ''SMTP connection refused''" for m
    by (simp add: failing_mail_env_def)
  have u0: "users empty_world = []"
    by (simp add: empty_world_def)
  show ?thesis
    by (simp add: registerUser_def Let_def example_validates example_safeName send insert_user_def
        caught_def respond_def log_effect_def u0)
qed

section \<open>Properties of password reset\<close>

lemma find_in_set: "find P xs = Some x \<Longrightarrow> x \<in> set xs \<and> P x"
  by (induction xs) (auto split: if_splits)

lemma find_none: "\<forall>y\<in>set xs. \<not> P y \<Longrightarrow> find P xs = None"
  by (induction xs) auto

lemma find_sole:
  "x \<in> set xs \<Longrightarrow> P x \<Longrightarrow> \<forall>y\<in>set xs. P y \<longrightarrow> y = x \<Longrightarrow> find P xs = Some x"
proof (induction xs)
  case Nil
  then show ?case by simp
next
  case (Cons a xs)
  show ?case
  proof (cases "P a")
    case True
    with Cons.prems(3) have "a = x" by simp
    with True show ?thesis by simp
  next
    case False
    with Cons.prems have "x \<in> set xs" by auto
    moreover have "\<forall>y\<in>set xs. P y \<longrightarrow> y = x" using Cons.prems(3) by simp
    ultimately have "find P xs = Some x" using Cons.IH Cons.prems(2) by blast
    with False show ?thesis by simp
  qed
qed

lemma save_user_users:
  "users (save_user u w) = map (\<lambda>v. if uid v = uid u then u else v) (users w)"
  by (simp add: save_user_def)

lemma save_user_mem:
  "u \<in> set (users w) \<Longrightarrow> uid u' = uid u \<Longrightarrow> u' \<in> set (users (save_user u' w))"
  by (force simp: save_user_def)

text \<open>After a save, every stored document with the saved identifier is the saved one.\<close>

lemma save_user_all: "\<forall>v\<in>set (users (save_user u' w)). uid v = uid u' \<longrightarrow> v = u'"
proof (intro ballI impI)
  fix v assume m: "v \<in> set (users (save_user u' w))" and i: "uid v = uid u'"
  from m have "v \<in> (\<lambda>x. if uid x = uid u' then u' else x) ` set (users w)"
    by (simp only: save_user_users set_map)
  then obtain x where vx: "v = (if uid x = uid u' then u' else x)"
    by (rule imageE)
  show "v = u'"
  proof (cases "uid x = uid u'")
    case True
    with vx show ?thesis by simp
  next
    case False
    with vx have "v = x" by simp
    with i False show ?thesis by simp
  qed
qed

lemma resetPassword_found:
  "findOne_reset e w (sha256_hex e token) = Some u \<Longrightarrow>
   resetPassword e w token password = (save_user (reset_user e u password) w, reset_ok e u)"
  by (simp add: resetPassword_def reset_user_def reset_ok_def store_password_def Let_def)

lemma resetPassword_none:
  "findOne_reset e w (sha256_hex e token) = None \<Longrightarrow>
   resetPassword e w token password = (w, invalid_or_expired)"
  by (simp add: resetPassword_def invalid_or_expired_def Let_def)

lemma validate_status:
  "registerUser_validate w f = Some r \<Longrightarrow> status r = 400 \<or> status r = 409 \<or> status r = 500"
  by (auto simp: registerUser_validate_def respond_def caught_def split: if_splits option.splits)

lemma short_password_rejected:
  "f ''password'' = Some p \<Longrightarrow> length p < 8 \<Longrightarrow> registerUser_validate w f \<noteq> None"
  by (simp add: registerUser_validate_def)

lemma reset_stores_password:
  assumes "findOne_reset e w (sha256_hex e token) = Some u"
  shows "status (snd (resetPassword e w token password)) = 200 \<and>
         reset_user e u password \<in> set (users (fst (resetPassword e w token password))) \<and>
         doc (reset_user e u password) ''password'' = Some (bcrypt_hash e password) \<and>
         (\<forall>v\<in>set (users (fst (resetPassword e w token password))).
            uid v = uid u \<longrightarrow> doc v ''password'' = Some (bcrypt_hash e password))"
proof -
  have uidr: "uid (reset_user e u password) = uid u"
    by (simp add: reset_user_def)
  have mem: "u \<in> set (users w)"
    using assms find_in_set unfolding findOne_reset_def by fastforce
  have stored: "doc (reset_user e u password) ''password'' = Some (bcrypt_hash e password)"
    by (simp add: reset_user_def)
  have inside: "reset_user e u password \<in> set (users (save_user (reset_user e u password) w))"
    using save_user_mem [OF mem uidr] .
  have every: "\<forall>v\<in>set (users (save_user (reset_user e u password) w)).
      uid v = uid u \<longrightarrow> doc v ''password'' = Some (bcrypt_hash e password)"
  proof (intro ballI impI)
    fix v assume v: "v \<in> set (users (save_user (reset_user e u password) w))" and "uid v = uid u"
    then have "uid v = uid (reset_user e u password)" by (simp add: uidr)
    with v save_user_all [of "reset_user e u password" w] have "v = reset_user e u password"
      by blast
    with stored show "doc v ''password'' = Some (bcrypt_hash e password)" by simp
  qed
  show ?thesis
    unfolding resetPassword_found [OF assms]
    using stored inside every by (simp add: reset_ok_def respond_def)
qed

text \<open>
  C10: a reset-password request whose token matches an unexpired stored hash is answered
  with 200 and the new password is stored (hashed) whatever its length; nothing in the
  statement bounds the length. At registration a password shorter than 8 characters never
  gets past validation: the store is unchanged and the status is not 201.
\<close>

theorem reset_password_any_length:
  "(findOne_reset e w (sha256_hex e token) = Some u \<longrightarrow>
      status (snd (resetPassword e w token password)) = 200 \<and>
      reset_user e u password \<in> set (users (fst (resetPassword e w token password))) \<and>
      doc (reset_user e u password) ''password'' = Some (bcrypt_hash e password) \<and>
      (\<forall>v\<in>set (users (fst (resetPassword e w token password))).
         uid v = uid u \<longrightarrow> doc v ''password'' = Some (bcrypt_hash e password))) \<and>
   (f ''password'' = Some p \<and> length p < 8 \<longrightarrow>
      fst (registerUser e' w' f files) = w' \<and> status (snd (registerUser e' w' f files)) \<noteq> 201)"
proof -
  have "fst (registerUser e' w' f files) = w' \<and> status (snd (registerUser e' w' f files)) \<noteq> 201"
    if pw: "f ''password'' = Some p" and short: "length p < 8"
  proof -
    obtain r where r: "registerUser_validate w' f = Some r"
      using short_password_rejected [where f = f and p = p and w = w'] pw short by auto
    show ?thesis
      using validate_status [OF r] by (auto simp: register_validation_response [OF r])
  qed
  then show ?thesis using reset_stores_password by blast
qed

lemma example_pending:
  "findOne_reset example_env pending_world (sha256_hex example_env ''ab12'') = Some example_user"
  by (simp add: findOne_reset_def reset_pending_def pending_world_def example_user_def example_env_def)

theorem reset_password_any_length_witness:
  "findOne_reset example_env pending_world (sha256_hex example_env ''ab12'') = Some example_user \<and>
   length ''abc'' < (8::nat) \<and>
   status (snd (resetPassword example_env pending_world ''ab12'' ''abc'')) = 200 \<and>
   reset_user example_env example_user ''abc'' \<in>
     set (users (fst (resetPassword example_env pending_world ''ab12'' ''abc''))) \<and>
   doc (reset_user example_env example_user ''abc'') ''password'' =
     Some (bcrypt_hash example_env ''abc'') \<and>
   status (snd (registerUser example_env empty_world (example_form(''password'' \<mapsto> ''abc'')) []))
     \<noteq> 201"
  using reset_password_any_length [of example_env pending_world "''ab12''" example_user "''abc''"
      "example_form(''password'' \<mapsto> ''abc'')" "''abc''" example_env empty_world "[]"] example_pending
  by simp

section \<open>Properties of login\<close>

text \<open>
  C6: of two login attempts that both carry an email and a password, one with an email
  that matches no user and one with a known email whose stored hash the password does not
  match, the responses are equal: status 400 with the message
  \<open>Invalid email or password.\<close> and no cookie.
\<close>

theorem login_failures_indistinguishable:
  assumes "truthy email1" "truthy password1" "truthy email2" "truthy password2"
    and "findOne_field w ''email'' email1 = None"
    and "findOne_field w ''email'' email2 = Some u"
    and "doc u ''password'' = Some stored"
    and "\<not> bcrypt_compare e (template password2) stored"
  shows "loginUser e w email1 password1 = loginUser e w email2 password2 \<and>
         loginUser e w email1 password1 = Inr invalid_credential \<and>
         status invalid_credential = 400"
  using assms by (simp add: loginUser_def invalid_credential_def respond_def)

theorem login_failures_indistinguishable_witness:
  "loginUser example_env pending_world (Some ''nobody@example.in'') (Some ''secret12'') =
   loginUser example_env pending_world (Some ''mary@example.in'') (Some ''wrong-password'') \<and>
   loginUser example_env pending_world (Some ''nobody@example.in'') (Some ''secret12'') =
     Inr invalid_credential"
proof -
  have a: "findOne_field pending_world ''email'' (Some ''nobody@example.in'') = None"
    by (simp add: findOne_field_def pending_world_def example_user_def)
  have b: "findOne_field pending_world ''email'' (Some ''mary@example.in'') = Some example_user"
    by (simp add: findOne_field_def pending_world_def example_user_def)
  have c: "doc example_user ''password'' = Some ''$secret12''"
    by (simp add: example_user_def)
  have d: "\<not> bcrypt_compare example_env (template (Some ''wrong-password'')) ''$secret12''"
    by (simp add: example_env_def template_def)
  have t: "truthy (Some ''nobody@example.in'')" "truthy (Some ''secret12'')"
    "truthy (Some ''mary@example.in'')" "truthy (Some ''wrong-password'')"
    by (simp_all add: truthy_def)
  show ?thesis
    using login_failures_indistinguishable [OF t a b c d] by blast
qed

section \<open>Properties of the NOC handlers\<close>

lemma newest_first_find_sorted: "newest_first (find_sorted w i)"
proof -
  have "sorted (map createdAt (sort_key createdAt (filter (\<lambda>a. user_id a = i) (nocs w))))"
    by (rule sorted_sort_key)
  then have "sorted_wrt (\<lambda>a b. createdAt a \<le> createdAt b)
      (sort_key createdAt (filter (\<lambda>a. user_id a = i) (nocs w)))"
    by (simp add: sorted_map)
  then show ?thesis
    unfolding newest_first_def find_sorted_def sorted_wrt_rev .
qed

text \<open>
  C8: \<open>getNOC\<close> answers 200 with the list \<open>find_sorted\<close>; that list holds exactly the stored
  applications whose owner reference is the user's identifier (as a multiset), by
  descending creation time, and none of another owner.
\<close>

theorem getNOC_own_newest_first:
  "getNOC w usr = respond 200 (JObj [(''success'', JBool True),
                                     (''data'', JArr (map noc_json (find_sorted w (uid usr))))]) \<and>
   mset (find_sorted w (uid usr)) = mset (filter (\<lambda>a. user_id a = uid usr) (nocs w)) \<and>
   newest_first (find_sorted w (uid usr)) \<and>
   (\<forall>a\<in>set (find_sorted w (uid usr)). user_id a = uid usr)"
proof -
  have "mset (find_sorted w (uid usr)) = mset (filter (\<lambda>a. user_id a = uid usr) (nocs w))"
    by (simp add: find_sorted_def)
  moreover have "\<forall>a\<in>set (find_sorted w (uid usr)). user_id a = uid usr"
    by (simp add: find_sorted_def)
  ultimately show ?thesis
    by (simp add: getNOC_def newest_first_find_sorted)
qed

theorem getNOC_own_newest_first_witness:
  "find_sorted noc_world (uid example_user) = [noc_late, noc_early] \<and>
   mset (find_sorted noc_world (uid example_user)) =
     mset (filter (\<lambda>a. user_id a = uid example_user) (nocs noc_world)) \<and>
   newest_first (find_sorted noc_world (uid example_user))"
proof -
  have a: "find_sorted noc_world (uid example_user) = [noc_late, noc_early]"
    by (simp add: find_sorted_def noc_world_def example_user_def noc_early_def noc_other_def
        noc_late_def)
  from a getNOC_own_newest_first [of noc_world example_user] show ?thesis
    by blast
qed

section \<open>Properties of the reset token\<close>

lemma forgot_user_uid: "uid (forgot_user e u) = uid u"
  by (simp add: forgot_user_def)

lemma forgotPassword_failed:
  "findOne_field w ''email'' (req_email req) = Some u \<Longrightarrow>
   sendEmail e (forgot_mail e req u) = Some err \<Longrightarrow>
   forgotPassword e w req =
     (save_user (u\<lparr>resetPasswordToken := None, resetPasswordExpire := None\<rparr>)
        (save_user (forgot_user e u) w), notification_failure)"
  by (simp add: forgotPassword_def forgot_mail_def forgot_user_def notification_failure_def Let_def)

lemma forgotPassword_sent:
  "findOne_field w ''email'' (req_email req) = Some u \<Longrightarrow>
   sendEmail e (forgot_mail e req u) = None \<Longrightarrow>
   users (fst (forgotPassword e w req)) = users (save_user (forgot_user e u) w)"
  by (simp add: forgotPassword_def forgot_mail_def forgot_user_def Let_def log_effect_def)

text \<open>
  C4: when a forgot-password request finds the user and the mail's send rejects, the handler
  answers 500, and in the store it leaves, the user's document (every document with that
  identifier, and there is one) has neither a reset-token hash nor an expiry.
\<close>

theorem forgot_password_failure_clears_token:
  assumes found: "findOne_field w ''email'' (req_email req) = Some u"
    and fails: "sendEmail e (forgot_mail e req u) = Some err"
  shows "snd (forgotPassword e w req) = notification_failure \<and>
         status notification_failure = 500 \<and>
         (\<forall>v\<in>set (users (fst (forgotPassword e w req))).
            uid v = uid u \<longrightarrow> resetPasswordToken v = None \<and> resetPasswordExpire v = None) \<and>
         (\<exists>v\<in>set (users (fst (forgotPassword e w req))). uid v = uid u)"
proof -
  let ?u2 = "u\<lparr>resetPasswordToken := None, resetPasswordExpire := None\<rparr>"
  let ?w1 = "save_user (forgot_user e u) w"
  have uid2: "uid ?u2 = uid u" by simp
  have mem: "u \<in> set (users w)"
    using found find_in_set unfolding findOne_field_def by fastforce
  have mem1: "forgot_user e u \<in> set (users ?w1)"
    using save_user_mem [OF mem forgot_user_uid] .
  have mem2: "?u2 \<in> set (users (save_user ?u2 ?w1))"
    by (rule save_user_mem [OF mem1]) (simp add: forgot_user_uid)
  have cleared: "\<forall>v\<in>set (users (save_user ?u2 ?w1)).
      uid v = uid u \<longrightarrow> resetPasswordToken v = None \<and> resetPasswordExpire v = None"
  proof (intro ballI impI)
    fix v assume v: "v \<in> set (users (save_user ?u2 ?w1))" and "uid v = uid u"
    then have "uid v = uid ?u2" by simp
    with v save_user_all [of ?u2 ?w1] have "v = ?u2" by blast
    then show "resetPasswordToken v = None \<and> resetPasswordExpire v = None" by simp
  qed
  have ex: "\<exists>v\<in>set (users (save_user ?u2 ?w1)). uid v = uid u"
    using mem2 uid2 by (rule bexI [rotated])
  have st: "status notification_failure = 500"
    by (simp add: notification_failure_def respond_def)
  show ?thesis
    unfolding forgotPassword_failed [OF found fails] fst_conv snd_conv
    using cleared ex st by blast
qed

lemma example_found:
  "findOne_field pending_world ''email'' (req_email example_request) = Some example_user"
  by (simp add: findOne_field_def pending_world_def example_user_def example_request_def)

theorem forgot_password_failure_clears_token_witness:
  "findOne_field pending_world ''email'' (req_email example_request) = Some example_user \<and>
   sendEmail failing_mail_env (forgot_mail failing_mail_env example_request example_user) =
     Some ''SMTP connection refused'' \<and>
   snd (forgotPassword failing_mail_env pending_world example_request) = notification_failure \<and>
   status notification_failure = 500 \<and>
   users (fst (forgotPassword failing_mail_env pending_world example_request)) =
     [example_user\<lparr>resetPasswordToken := None, resetPasswordExpire := None\<rparr>]"
proof -
  have fails: "sendEmail failing_mail_env (forgot_mail failing_mail_env example_request example_user) =
     Some ''SMTP connection refused''"
    by (simp add: failing_mail_env_def)
  have store: "users (fst (forgotPassword failing_mail_env pending_world example_request)) =
     [example_user\<lparr>resetPasswordToken := None, resetPasswordExpire := None\<rparr>]"
    unfolding forgotPassword_failed [OF example_found fails] fst_conv
    by (simp add: save_user_users forgot_user_def pending_world_def)
  show ?thesis
    using forgot_password_failure_clears_token [OF example_found fails] example_found fails store
    by blast
qed

text \<open>
  C3: let \<open>u\<close> be a stored user with token hash \<open>h\<close> and expiry \<open>t\<close>, and let no other stored
  user hold the hash of the presented token (reset tokens are 20 random bytes). Then
  reset-password succeeds exactly when the presented token's hash is \<open>h\<close> and now is before
  \<open>t\<close>, and otherwise answers 400 \<open>Invalid or expired token.\<close> with the store unchanged; a
  success leaves the user without hash and expiry, so a second request with the same token,
  at any time, answers 400; at or after \<open>t\<close> the answer is 400 whatever the token. The expiry
  that \<open>forgotPassword\<close> stores is its own time plus 15 minutes (900000 ms).
\<close>

theorem reset_token_single_use:
  assumes holder: "u \<in> set (users w)"
    and tok: "resetPasswordToken u = Some h"
    and exp: "resetPasswordExpire u = Some t"
    and sole: "\<forall>v\<in>set (users w). v \<noteq> u \<longrightarrow> resetPasswordToken v \<noteq> Some (sha256_hex e token)"
  shows "resetPassword e w token p =
           (if sha256_hex e token = h \<and> Date_now e < t
            then (save_user (reset_user e u p) w, reset_ok e u) else (w, invalid_or_expired)) \<and>
         (\<forall>v\<in>set (users (save_user (reset_user e u p) w)).
            uid v = uid u \<longrightarrow> resetPasswordToken v = None \<and> resetPasswordExpire v = None) \<and>
         (sha256_hex e' = sha256_hex e \<longrightarrow>
            resetPassword e' (save_user (reset_user e u p) w) token p' =
              (save_user (reset_user e u p) w, invalid_or_expired)) \<and>
         (t \<le> Date_now e \<longrightarrow> resetPassword e w token p = (w, invalid_or_expired)) \<and>
         (findOne_field w0 ''email'' (req_email req) = Some u0 \<and>
          sendEmail e0 (forgot_mail e0 req u0) = None \<longrightarrow>
            (\<forall>v\<in>set (users (fst (forgotPassword e0 w0 req))).
               uid v = uid u0 \<longrightarrow>
                 resetPasswordToken v = Some (sha256_hex e0 (randomBytes_hex e0)) \<and>
                 resetPasswordExpire v = Some (Date_now e0 + 15 * 60 * 1000)))"
proof -
  let ?w' = "save_user (reset_user e u p) w"
  have uidr: "uid (reset_user e u p) = uid u"
    by (simp add: reset_user_def)
  have first: "resetPassword e w token p =
           (if sha256_hex e token = h \<and> Date_now e < t
            then (save_user (reset_user e u p) w, reset_ok e u) else (w, invalid_or_expired))"
  proof (cases "sha256_hex e token = h \<and> Date_now e < t")
    case valid: True
    have p1: "reset_pending e (sha256_hex e token) u"
      using valid tok exp by (simp add: reset_pending_def)
    have p2: "\<forall>v\<in>set (users w). reset_pending e (sha256_hex e token) v \<longrightarrow> v = u"
    proof (intro ballI impI)
      fix v assume v: "v \<in> set (users w)" and "reset_pending e (sha256_hex e token) v"
      then have "resetPasswordToken v = Some (sha256_hex e token)"
        by (simp add: reset_pending_def)
      with sole v show "v = u" by blast
    qed
    have "find (reset_pending e (sha256_hex e token)) (users w) = Some u"
      by (rule find_sole [OF holder p1 p2])
    then have "findOne_reset e w (sha256_hex e token) = Some u"
      by (simp only: findOne_reset_def)
    then have "resetPassword e w token p = (save_user (reset_user e u p) w, reset_ok e u)"
      by (rule resetPassword_found)
    then show ?thesis
      by (simp only: if_P [OF valid])
  next
    case invalid: False
    have "\<forall>v\<in>set (users w). \<not> reset_pending e (sha256_hex e token) v"
    proof
      fix v assume v: "v \<in> set (users w)"
      show "\<not> reset_pending e (sha256_hex e token) v"
      proof (cases "v = u")
        case same: True
        have "reset_pending e (sha256_hex e token) u = (sha256_hex e token = h \<and> Date_now e < t)"
          by (simp add: reset_pending_def tok exp eq_commute)
        with invalid same show ?thesis by simp
      next
        case other: False
        with sole v have "resetPasswordToken v \<noteq> Some (sha256_hex e token)" by blast
        then show ?thesis by (simp add: reset_pending_def)
      qed
    qed
    then have "find (reset_pending e (sha256_hex e token)) (users w) = None"
      by (rule find_none)
    then have "findOne_reset e w (sha256_hex e token) = None"
      by (simp only: findOne_reset_def)
    then have "resetPassword e w token p = (w, invalid_or_expired)"
      by (rule resetPassword_none)
    then show ?thesis
      by (simp only: if_not_P [OF invalid])
  qed
  have cleared: "\<forall>v\<in>set (users ?w'). uid v = uid u \<longrightarrow>
      resetPasswordToken v = None \<and> resetPasswordExpire v = None"
  proof (intro ballI impI)
    fix v assume v: "v \<in> set (users ?w')" and i: "uid v = uid u"
    have "uid v = uid (reset_user e u p)"
      using i by (simp add: uidr)
    with v save_user_all [of "reset_user e u p" w] have "v = reset_user e u p"
      by blast
    then show "resetPasswordToken v = None \<and> resetPasswordExpire v = None"
      by (simp add: reset_user_def)
  qed
  have second: "resetPassword e' ?w' token p' = (?w', invalid_or_expired)"
    if same: "sha256_hex e' = sha256_hex e"
  proof -
    have "\<forall>v\<in>set (users ?w'). \<not> reset_pending e' (sha256_hex e' token) v"
    proof
      fix v assume v: "v \<in> set (users ?w')"
      show "\<not> reset_pending e' (sha256_hex e' token) v"
      proof (cases "uid v = uid u")
        case True
        with cleared v show ?thesis by (simp add: reset_pending_def)
      next
        case False
        from v have "v \<in> (\<lambda>x. if uid x = uid u then reset_user e u p else x) ` set (users w)"
          by (simp only: save_user_users set_map uidr)
        then obtain x where x: "x \<in> set (users w)"
          and vx: "v = (if uid x = uid u then reset_user e u p else x)"
          by (rule imageE)
        have ne: "uid x \<noteq> uid u"
        proof
          assume "uid x = uid u"
          with vx have "v = reset_user e u p" by simp
          with False uidr show False by simp
        qed
        with vx have "v = x" by simp
        with x ne have "v \<in> set (users w)" "v \<noteq> u" by auto
        with sole have "resetPasswordToken v \<noteq> Some (sha256_hex e token)"
          by blast
        then show ?thesis
          by (simp add: reset_pending_def same)
      qed
    qed
    then have "find (reset_pending e' (sha256_hex e' token)) (users ?w') = None"
      by (rule find_none)
    then have "findOne_reset e' ?w' (sha256_hex e' token) = None"
      by (simp only: findOne_reset_def)
    then show ?thesis by (rule resetPassword_none)
  qed
  have forgot: "\<forall>v\<in>set (users (fst (forgotPassword e0 w0 req))).
               uid v = uid u0 \<longrightarrow>
                 resetPasswordToken v = Some (sha256_hex e0 (randomBytes_hex e0)) \<and>
                 resetPasswordExpire v = Some (Date_now e0 + 15 * 60 * 1000)"
    if a: "findOne_field w0 ''email'' (req_email req) = Some u0"
      and b: "sendEmail e0 (forgot_mail e0 req u0) = None"
  proof (intro ballI impI)
    fix v assume v: "v \<in> set (users (fst (forgotPassword e0 w0 req)))" and i: "uid v = uid u0"
    have "v \<in> set (users (save_user (forgot_user e0 u0) w0))"
      using v unfolding forgotPassword_sent [OF a b] .
    moreover have "uid v = uid (forgot_user e0 u0)"
      using i by (simp add: forgot_user_def)
    ultimately have "v = forgot_user e0 u0"
      using save_user_all [of "forgot_user e0 u0" w0] by blast
    then show "resetPasswordToken v = Some (sha256_hex e0 (randomBytes_hex e0)) \<and>
        resetPasswordExpire v = Some (Date_now e0 + 15 * 60 * 1000)"
      by (simp add: forgot_user_def)
  qed
  have late: "resetPassword e w token p = (w, invalid_or_expired)" if "t \<le> Date_now e"
    using first that by simp
  show ?thesis
  proof (intro conjI)
    show "resetPassword e w token p =
           (if sha256_hex e token = h \<and> Date_now e < t
            then (save_user (reset_user e u p) w, reset_ok e u) else (w, invalid_or_expired))"
      by (rule first)
    show "\<forall>v\<in>set (users ?w'). uid v = uid u \<longrightarrow>
        resetPasswordToken v = None \<and> resetPasswordExpire v = None"
      by (rule cleared)
    show "sha256_hex e' = sha256_hex e \<longrightarrow> resetPassword e' ?w' token p' = (?w', invalid_or_expired)"
      using second by (rule impI)
    show "t \<le> Date_now e \<longrightarrow> resetPassword e w token p = (w, invalid_or_expired)"
      using late by (rule impI)
    show "findOne_field w0 ''email'' (req_email req) = Some u0 \<and>
          sendEmail e0 (forgot_mail e0 req u0) = None \<longrightarrow>
            (\<forall>v\<in>set (users (fst (forgotPassword e0 w0 req))).
               uid v = uid u0 \<longrightarrow>
                 resetPasswordToken v = Some (sha256_hex e0 (randomBytes_hex e0)) \<and>
                 resetPasswordExpire v = Some (Date_now e0 + 15 * 60 * 1000))"
    proof (rule impI, elim conjE)
      assume a: "findOne_field w0 ''email'' (req_email req) = Some u0"
        and b: "sendEmail e0 (forgot_mail e0 req u0) = None"
      show "\<forall>v\<in>set (users (fst (forgotPassword e0 w0 req))).
               uid v = uid u0 \<longrightarrow>
                 resetPasswordToken v = Some (sha256_hex e0 (randomBytes_hex e0)) \<and>
                 resetPasswordExpire v = Some (Date_now e0 + 15 * 60 * 1000)"
        by (rule forgot [OF a b])
    qed
  qed
qed


theorem reset_token_single_use_witness:
  "resetPassword example_env pending_world ''ab12'' ''new-password'' =
     (save_user (reset_user example_env example_user ''new-password'') pending_world,
      reset_ok example_env example_user) \<and>
   resetPassword example_env
     (save_user (reset_user example_env example_user ''new-password'') pending_world) ''ab12'' ''again'' =
     (save_user (reset_user example_env example_user ''new-password'') pending_world,
      invalid_or_expired) \<and>
   resetPassword late_env pending_world ''ab12'' ''new-password'' = (pending_world, invalid_or_expired) \<and>
   users (fst (forgotPassword example_env pending_world example_request)) =
     [example_user\<lparr>resetPasswordToken := Some ''h:ab12'', resetPasswordExpire := Some 901000\<rparr>]"
proof -
  have sent: "sendEmail example_env (forgot_mail example_env example_request example_user) = None"
    by (simp add: example_env_def)
  have stored: "sha256_hex example_env (randomBytes_hex example_env) = ''h:ab12''"
    "Date_now example_env = 1000"
    by (simp_all add: example_env_def)
  have d: "users (fst (forgotPassword example_env pending_world example_request)) =
     [example_user\<lparr>resetPasswordToken := Some ''h:ab12'', resetPasswordExpire := Some 901000\<rparr>]"
    unfolding forgotPassword_sent [OF example_found sent]
    by (simp add: save_user_users forgot_user_def pending_world_def stored)
  have holder: "example_user \<in> set (users pending_world)"
    by (simp add: pending_world_def)
  have tok: "resetPasswordToken example_user = Some ''h:ab12''"
    by (simp add: example_user_def)
  have exp: "resetPasswordExpire example_user = Some 901000"
    by (simp add: example_user_def)
  have sole: "\<forall>v\<in>set (users pending_world).
      v \<noteq> example_user \<longrightarrow> resetPasswordToken v \<noteq> Some (sha256_hex e ''ab12'')" for e
    by (simp add: pending_world_def)
  have hash: "sha256_hex example_env ''ab12'' = ''h:ab12''"
    by (simp add: example_env_def)
  have now: "Date_now example_env < 901000"
    by (simp add: example_env_def)
  have late: "(901000::nat) \<le> Date_now late_env"
    by (simp add: late_env_def)
  note now_thm = reset_token_single_use [OF holder tok exp sole, where e = example_env and p = "''new-password''"
      and e' = example_env and p' = "''again''"]
  note late_thm = reset_token_single_use [OF holder tok exp sole, where e = late_env and p = "''new-password''"]
  have a: "resetPassword example_env pending_world ''ab12'' ''new-password'' =
     (save_user (reset_user example_env example_user ''new-password'') pending_world,
      reset_ok example_env example_user)"
    using now_thm hash now by simp
  have b: "resetPassword example_env
     (save_user (reset_user example_env example_user ''new-password'') pending_world) ''ab12'' ''again'' =
     (save_user (reset_user example_env example_user ''new-password'') pending_world,
      invalid_or_expired)"
    using now_thm by blast
  have c: "resetPassword late_env pending_world ''ab12'' ''new-password'' = (pending_world, invalid_or_expired)"
    using late_thm late by blast
  from a b c d show ?thesis by blast
qed

section \<open>Uploads that are not PDF files\<close>

text \<open>
  In \<open>registerUser\<close> a file whose lower-cased extension is not \<open>.pdf\<close> ends the upload loop
  with a response, so no user is stored and the status is not 201.
\<close>

lemma registerUser_uploads_non_pdf:
  "(k, fl) \<in> set files \<Longrightarrow> toLowerCase (extname (originalname fl)) \<noteq> ''.pdf'' \<Longrightarrow>
   \<exists>w' r. registerUser_uploads e sn files w f = (w', Inl r)"
proof (induction files arbitrary: w f)
  case Nil
  then show ?case by simp
next
  case (Cons p files)
  obtain k' fl' where p: "p = (k', fl')" by (cases p)
  show ?case
  proof (cases "toLowerCase (extname (originalname fl')) \<noteq> ''.pdf''")
    case True
    then show ?thesis by (simp add: p)
  next
    case False
    with Cons.prems p have "(k, fl) \<in> set files" by auto
    from Cons.IH [OF this Cons.prems(2)] False show ?thesis
      by (simp add: p Let_def split: sum.splits)
  qed
qed

lemma register_non_pdf_no_user:
  assumes "(k, fl) \<in> set files" and "toLowerCase (extname (originalname fl)) \<noteq> ''.pdf''"
  shows "users (fst (registerUser e w f files)) = users w \<and>
         status (snd (registerUser e w f files)) \<noteq> 201"
proof (cases "registerUser_validate w f")
  case (Some r)
  with validate_status [OF Some] show ?thesis
    by (auto simp: register_validation_response [OF Some])
next
  case None
  let ?sn = "register_safeName (register_fullName (f ''f_name'') (f ''m_name'') (f ''l_name''))"
  obtain w' r where loop: "registerUser_uploads e ?sn files (log_effect (Mkdir ?sn) w) f = (w', Inl r)"
    using registerUser_uploads_non_pdf [OF assms] by blast
  have "users w' = users w"
    using registerUser_uploads_store [OF loop] by (simp add: log_effect_def)
  moreover have "status r \<noteq> 201"
    using registerUser_uploads_Inl [OF loop] by (auto simp: respond_def)
  ultimately show ?thesis
    by (simp add: registerUser_def None loop Let_def)
qed

lemma registerUser_uploads_Inl_400:
  assumes "\<And>b n d. \<exists>url. uploadBufferToCloudinary e b n d = Inr url"
    and "registerUser_uploads e sn files w f = (w', Inl r)"
  shows "status r = 400"
  using assms(2)
proof (induction files arbitrary: w f)
  case Nil
  then show ?case by simp
next
  case (Cons p files)
  obtain k fl where p: "p = (k, fl)" by (cases p)
  obtain url where url: "uploadBufferToCloudinary e (buffer fl) (upload_filename e k) sn = Inr url"
    using assms(1) by blast
  from Cons.prems show ?case
    unfolding p
    by (auto simp: Let_def url respond_def split: if_splits dest: Cons.IH)
qed

text \<open>
  When the uploads themselves do not fail, a registration that has passed validation and
  carries a file that is no PDF is answered with 400, and no user is stored.
\<close>

lemma register_non_pdf_400:
  assumes "registerUser_validate w f = None"
    and "(k, fl) \<in> set files" and "toLowerCase (extname (originalname fl)) \<noteq> ''.pdf''"
    and "\<And>b n d. \<exists>url. uploadBufferToCloudinary e b n d = Inr url"
  shows "users (fst (registerUser e w f files)) = users w \<and>
         status (snd (registerUser e w f files)) = 400"
proof -
  let ?sn = "register_safeName (register_fullName (f ''f_name'') (f ''m_name'') (f ''l_name''))"
  obtain w' r where loop: "registerUser_uploads e ?sn files (log_effect (Mkdir ?sn) w) f = (w', Inl r)"
    using registerUser_uploads_non_pdf [OF assms(2,3)] by blast
  have "users w' = users w"
    using registerUser_uploads_store [OF loop] by (simp add: log_effect_def)
  moreover have "status r = 400"
    using registerUser_uploads_Inl_400 [OF assms(4) loop] .
  ultimately show ?thesis
    by (simp add: registerUser_def assms(1) loop Let_def)
qed

lemma photo_ext: "toLowerCase (extname (originalname photo_png)) = ''.png''"
  unfolding photo_png_def upload_file.simps by code_simp

lemma string_of_1000: "string_of_nat 1000 = ''1000''"
  by (simp add: string_of_nat.simps char_of_def bit_0)

text \<open>
  C2: an NOC submission with both required files, the second one named \<open>photo.png\<close>, is
  answered with 201 and an application is stored whose \<open>aadhaar_upload\<close> is that file,
  uploaded under a name ending in \<open>.pdf\<close>: \<open>applyNOC\<close> has no check of the extension.
\<close>

theorem applyNOC_accepts_non_pdf:
  "toLowerCase (extname (originalname photo_png)) = ''.png'' \<and>
   status (snd (applyNOC example_env empty_world example_user noc_form noc_files)) = 201 \<and>
   nocs (fst (applyNOC example_env empty_world example_user noc_form noc_files)) =
     [\<lparr>noc_id = 1, user_id = 7, dental_council_name = ''KDC'', postal_address = ''Road 1'',
       uploads = [(''tdc_reg_certificate_upload'',
                   ''https://cdn/Mary_Ann_Smith/1000-tdc_reg_certificate_upload.pdf''),
                  (''aadhaar_upload'', ''https://cdn/Mary_Ann_Smith/1000-aadhaar_upload.pdf'')],
       createdAt = 1000\<rparr>]"
proof -
  have sn: "noc_safeName (noc_fullName (doc example_user ''f_name'') (doc example_user ''m_name'')
      (doc example_user ''l_name'')) = ''Mary_Ann_Smith''"
    by (simp add: noc_safeName_def noc_fullName_def strip_outside_def filter_Boolean_def truthy_def
        is_word_char_def is_whitespace_def code_def example_user_def)
  have up: "uploadBufferToCloudinary example_env b n d = Inr (''https://cdn/'' @ d @ ''/'' @ n)" for b n d
    by (simp add: example_env_def)
  have fn: "upload_filename example_env k = ''1000-'' @ k @ ''.pdf''" for k
    by (simp add: upload_filename_def example_env_def string_of_1000)
  have now: "Date_now example_env = 1000"
    by (simp add: example_env_def)
  have loop: "applyNOC_uploads example_env ''Mary_Ann_Smith'' noc_files w [] =
      (log_effect (WriteFile ''Mary_Ann_Smith'' ''1000-aadhaar_upload.pdf'' ''PNG'')
        (log_effect (Mkdir ''Mary_Ann_Smith'')
          (log_effect (Uploaded ''1000-aadhaar_upload.pdf'' ''Mary_Ann_Smith''
              ''https://cdn/Mary_Ann_Smith/1000-aadhaar_upload.pdf'')
            (log_effect (WriteFile ''Mary_Ann_Smith'' ''1000-tdc_reg_certificate_upload.pdf'' ''%PDF-1.7'')
              (log_effect (Mkdir ''Mary_Ann_Smith'')
                (log_effect (Uploaded ''1000-tdc_reg_certificate_upload.pdf'' ''Mary_Ann_Smith''
                    ''https://cdn/Mary_Ann_Smith/1000-tdc_reg_certificate_upload.pdf'') w))))),
       Inr [(''tdc_reg_certificate_upload'',
                   ''https://cdn/Mary_Ann_Smith/1000-tdc_reg_certificate_upload.pdf''),
                  (''aadhaar_upload'', ''https://cdn/Mary_Ann_Smith/1000-aadhaar_upload.pdf'')])" for w
    by (simp add: noc_files_def cert_pdf_def photo_png_def up fn Let_def)
  have req: "find (\<lambda>field. map_of noc_files field = None) requiredFiles = None"
    by (simp add: requiredFiles_def noc_files_def)
  have texts: "truthy (noc_form ''dental_council_name'')" "truthy (noc_form ''postal_address'')"
    "template (noc_form ''dental_council_name'') = ''KDC''"
    "template (noc_form ''postal_address'') = ''Road 1''"
    by (simp_all add: noc_form_def truthy_def template_def)
  have w0: "nocs empty_world = []" "next_id empty_world = 1"
    by (simp_all add: empty_world_def)
  have uid7: "uid example_user = 7"
    by (simp add: example_user_def)
  show ?thesis
    by (simp add: applyNOC_def photo_ext sn loop req texts Let_def new_NOC_def insert_noc_def spread_def
        respond_def log_effect_def now w0 uid7)
qed

theorem applyNOC_accepts_non_pdf_witness:
  "status (snd (applyNOC example_env empty_world example_user noc_form noc_files)) = 201 \<and>
   length (nocs (fst (applyNOC example_env empty_world example_user noc_form noc_files))) = 1"
  using applyNOC_accepts_non_pdf by simp

end
